theory Spec2Isabelle
  imports Complex_Main
begin

section \<open>Python values used by the room optimizer\<close>

text \<open>
  The development embeds \<^verbatim>\<open>src/core/room_optimizer.py\<close>. Python integers are
  \<^typ>\<open>int\<close>. A Python float is read as the real number it denotes and the float
  operations as the exact ones: the rounding of a float operation is not modelled. An
  exception is a value of \<open>py_error\<close>, and a method that can raise returns
  \<open>py_error + 'a\<close> with \<open>Inl\<close> for the exception.
\<close>

datatype py_error = KeyError string | TypeError | ValueError

definition bind_err :: "'e + 'a \<Rightarrow> ('a \<Rightarrow> 'e + 'b) \<Rightarrow> 'e + 'b" where
  "bind_err m f = (case m of Inl e \<Rightarrow> Inl e | Inr x \<Rightarrow> f x)"

text \<open>
  A \<^verbatim>\<open>for\<close> loop whose body appends to one list and may raise: the bodies run in
  order and the first exception leaves the loop.
\<close>

fun for_each :: "('a \<Rightarrow> 'e + 'b list) \<Rightarrow> 'a list \<Rightarrow> 'e + 'b list" where
  "for_each body [] = Inr []"
| "for_each body (x # xs) =
     (case body x of
        Inl e \<Rightarrow> Inl e
      | Inr ys \<Rightarrow> (case for_each body xs of Inl e \<Rightarrow> Inl e | Inr zs \<Rightarrow> Inr (ys @ zs)))"

text \<open>\<^verbatim>\<open>int(x)\<close> on a float truncates towards zero.\<close>

definition py_int :: "real \<Rightarrow> int" where
  "py_int x = (if 0 \<le> x then \<lfloor>x\<rfloor> else \<lceil>x\<rceil>)"

text \<open>
  \<^verbatim>\<open>round(x, 3)\<close>: the nearest multiple of one thousandth, a tie going to the
  even one.
\<close>

definition round_half_even :: "real \<Rightarrow> int" where
  "round_half_even x =
     (let f = \<lfloor>x\<rfloor>; d = x - of_int f
      in if d < 1 / 2 then f else if 1 / 2 < d then f + 1 else if even f then f else f + 1)"

definition py_round3 :: "real \<Rightarrow> real" where
  "py_round3 x = of_int (round_half_even (x * 1000)) / 1000"

subsection \<open>Timestamps\<close>

text \<open>
  A lesson carries its times as ISO-8601 text. A well-formed text is kept by what it
  says: the wall-clock reading in seconds and the designator after it (none, the
  letter Z, or a numeric offset in minutes). \<^verbatim>\<open>datetime.fromisoformat\<close> gives a
  naive datetime for a text with no designator and an aware one otherwise; whether it
  reads the letter Z depends on the interpreter (it does from Python 3.11 on), which is
  the parameter \<open>reads_z\<close>.
\<close>

datatype designator = NoDesignator | Zulu | UtcOffset int

record iso_text =
  wall_clock :: int
  suffix :: designator

datatype datetime = Naive int | Aware int int

definition replace_Z :: "iso_text \<Rightarrow> iso_text" where
  "replace_Z t = (case suffix t of Zulu \<Rightarrow> t\<lparr>suffix := UtcOffset 0\<rparr> | _ \<Rightarrow> t)"

definition fromisoformat :: "bool \<Rightarrow> iso_text \<Rightarrow> py_error + datetime" where
  "fromisoformat reads_z t =
     (case suffix t of
        NoDesignator \<Rightarrow> Inr (Naive (wall_clock t))
      | UtcOffset m \<Rightarrow> Inr (Aware (wall_clock t) m)
      | Zulu \<Rightarrow> if reads_z then Inr (Aware (wall_clock t) 0) else Inl ValueError)"

text \<open>Ordering two datetimes raises TypeError when exactly one of them is naive.\<close>

fun dt_less :: "datetime \<Rightarrow> datetime \<Rightarrow> py_error + bool" where
  "dt_less (Naive a) (Naive b) = Inr (a < b)"
| "dt_less (Aware a m) (Aware b n) = Inr (a - 60 * m < b - 60 * n)"
| "dt_less _ _ = Inl TypeError"

definition dt_greater :: "datetime \<Rightarrow> datetime \<Rightarrow> py_error + bool" where
  "dt_greater a b = dt_less b a"

subsection \<open>Rooms, lessons, preferences\<close>

record room =
  room_id :: string
  name :: string
  capacity :: int
  hasAC :: "bool option"
  hasHeater :: "bool option"

record lesson =
  lesson_id :: string
  title :: string
  start_time :: iso_text
  end_time :: iso_text
  student_count :: "int option"

text \<open>\<^verbatim>\<open>d.get(key, default)\<close> on an optional field.\<close>

definition get_or :: "'a option \<Rightarrow> 'a \<Rightarrow> 'a" where
  "get_or field dflt = (case field of None \<Rightarrow> dflt | Some v \<Rightarrow> v)"

text \<open>
  The preferences dictionary is an association list; \<^verbatim>\<open>d[key]\<close> raises KeyError on a
  missing key.
\<close>

type_synonym preferences = "(string \<times> real) list"

definition subscript :: "preferences \<Rightarrow> string \<Rightarrow> py_error + real" where
  "subscript d k = (case map_of d k of None \<Rightarrow> Inl (KeyError k) | Some w \<Rightarrow> Inr w)"

definition default_preferences :: preferences where
  "default_preferences =
     [(''temperature_weight'', 3 / 10), (''equipment_weight'', 2 / 10), (''capacity_weight'', 5 / 10)]"

type_synonym var = "nat \<times> nat"

text \<open>
  The optimizer object: the fields set by \<^verbatim>\<open>__init__\<close>. The argument
  \<open>preferences = None\<close> is \<open>None\<close>; \<^verbatim>\<open>preferences or {...}\<close> takes the defaults when
  the argument is None or an empty dictionary. \<open>now\<close> is the reading of
  \<^verbatim>\<open>datetime.now()\<close>, a naive datetime, in seconds.
\<close>

record room_optimizer =
  rooms :: "room list"
  lessons :: "lesson list"
  preferences :: preferences
  temperature_predictions :: "var \<rightharpoonup> real"
  seven_days_from_now :: datetime

definition init :: "int \<Rightarrow> room list \<Rightarrow> lesson list \<Rightarrow> preferences option \<Rightarrow> room_optimizer" where
  "init now rs ls prefs =
     \<lparr> rooms = rs,
       lessons = ls,
       preferences = (case prefs of
                        None \<Rightarrow> default_preferences
                      | Some d \<Rightarrow> if d = [] then default_preferences else d),
       temperature_predictions = Map.empty,
       seven_days_from_now = Naive (now + 7 * 86400) \<rparr>"

section \<open>The objective\<close>

text \<open>An objective term \<^verbatim>\<open>score * assignments[(i, j)]\<close> is the pair of its coefficient and its variable.\<close>

type_synonym objective_term = "int \<times> var"

subsection \<open>Temperature comfort\<close>

text \<open>The banding of \<^verbatim>\<open>_add_temperature_objective\<close>, lines 283 to 292.\<close>

definition temp_score :: "real \<Rightarrow> real" where
  "temp_score predicted_temp =
     (if 20 \<le> predicted_temp \<and> predicted_temp \<le> 22 then 100
      else if 19 \<le> predicted_temp \<and> predicted_temp \<le> 23 then 90
      else if 18 \<le> predicted_temp \<and> predicted_temp \<le> 24 then 70
      else if 17 \<le> predicted_temp \<and> predicted_temp \<le> 25 then 50
      else max 0 (30 - \<bar>predicted_temp - 21\<bar> * 5))"

definition add_temperature_objective :: "room_optimizer \<Rightarrow> py_error + objective_term list" where
  "add_temperature_objective self =
     for_each (\<lambda>(i, lesson).
       for_each (\<lambda>(j, room).
         let predicted_temp = get_or (temperature_predictions self (i, j)) 21
         in bind_err (subscript (preferences self) ''temperature_weight'') (\<lambda>w.
              let weighted_score = py_int (temp_score predicted_temp * w)
              in Inr [(weighted_score, (i, j))]))
         (enumerate 0 (rooms self)))
       (enumerate 0 (lessons self))"

subsection \<open>Capacity fit\<close>

definition add_capacity_fit_objective :: "room_optimizer \<Rightarrow> py_error + objective_term list" where
  "add_capacity_fit_objective self =
     for_each (\<lambda>(i, lesson).
       let student_count = get_or (student_count lesson) 0
       in for_each (\<lambda>(j, room).
            if capacity room \<ge> student_count then
              let capacity_ratio =
                    (if capacity room > 0 then real_of_int student_count / real_of_int (capacity room)
                     else 0)
              in bind_err (subscript (preferences self) ''capacity_weight'') (\<lambda>w.
                   let score = py_int (capacity_ratio * 100 * w)
                   in Inr [(score, (i, j))])
            else Inr [])
            (enumerate 0 (rooms self)))
       (enumerate 0 (lessons self))"

subsection \<open>Equipment\<close>

definition add_equipment_objective :: "bool \<Rightarrow> room_optimizer \<Rightarrow> py_error + objective_term list" where
  "add_equipment_objective reads_z self =
     for_each (\<lambda>(i, lesson).
       bind_err (fromisoformat reads_z (replace_Z (start_time lesson))) (\<lambda>lesson_datetime.
         for_each (\<lambda>(j, room).
           bind_err (dt_greater lesson_datetime (seven_days_from_now self)) (\<lambda>beyond.
             let equipment_score =
                   (if beyond then
                      (if get_or (hasAC room) False then 20 else 0)
                      + (if get_or (hasHeater room) False then 20 else 0)
                    else
                      let predicted_temp = get_or (temperature_predictions self (i, j)) 21
                      in (if get_or (hasAC room) False then
                            (if predicted_temp > 25 then 50
                             else if predicted_temp > 23 then 30
                             else if predicted_temp > 21 then 10
                             else 0)
                          else 0)
                         + (if get_or (hasHeater room) False then
                              (if predicted_temp < 17 then 50
                               else if predicted_temp < 19 then 30
                               else if predicted_temp < 21 then 10
                               else 0)
                            else 0))
             in bind_err (subscript (preferences self) ''equipment_weight'') (\<lambda>w.
                  let weighted_score = py_int (real_of_int equipment_score * w)
                  in Inr [(weighted_score, (i, j))])))
           (enumerate 0 (rooms self))))
       (enumerate 0 (lessons self))"

section \<open>The temperature predictions\<close>

text \<open>
  The regression model file, the sensor store and the forecast are outside the optimizer.
  \<open>load_model\<close> is what \<^verbatim>\<open>joblib.load\<close> gives, \<open>None\<close> when it raises.
  \<open>hourly_temperatures\<close> stands for the body of the \<^verbatim>\<open>try\<close> of lines 201 to 261: for a
  lesson and a room it gives the list \<^verbatim>\<open>temperatures\<close> collected from the forecast, or
  the exception raised on the way. \<open>solve\<close> is the CP-SAT solver: for a model it gives
  the status, the value of each variable and the statistics.
\<close>

datatype constraint = EqZero var | ExactlyOne "var list" | SumLeOne var var

record cp_model =
  variables :: "var list"
  constraints :: "constraint list"
  objective :: "objective_term list"

datatype cp_status = UNKNOWN | MODEL_INVALID | FEASIBLE | INFEASIBLE | OPTIMAL

record solver_stats =
  conflicts :: int
  branches :: int
  wall_time :: real

record 'm environment =
  z_suffix_read :: bool
  load_model :: "'m option"
  hourly_temperatures :: "'m \<Rightarrow> lesson \<Rightarrow> room \<Rightarrow> py_error + real list"
  solve :: "cp_model \<Rightarrow> cp_status \<times> (var \<Rightarrow> int) \<times> solver_stats"

definition predict_room ::
    "'m environment \<Rightarrow> 'm \<Rightarrow> lesson \<Rightarrow> room \<Rightarrow> real" where
  "predict_room env model lesson room =
     (case hourly_temperatures env model lesson room of
        Inl e \<Rightarrow> 21
      | Inr temperatures \<Rightarrow>
          if temperatures \<noteq> [] then sum_list temperatures / real (length temperatures)
          else 21)"

fun predict_lessons ::
    "'m environment \<Rightarrow> 'm \<Rightarrow> room list \<Rightarrow> datetime \<Rightarrow> (nat \<times> lesson) list
       \<Rightarrow> (var \<rightharpoonup> real) \<Rightarrow> py_error + (var \<rightharpoonup> real)" where
  "predict_lessons env model rs horizon [] preds = Inr preds"
| "predict_lessons env model rs horizon ((i, lesson) # rest) preds =
     (case fromisoformat (z_suffix_read env) (replace_Z (start_time lesson)) of
        Inl e \<Rightarrow> Inl e
      | Inr lesson_datetime \<Rightarrow>
          (case dt_greater lesson_datetime horizon of
             Inl e \<Rightarrow> Inl e
           | Inr beyond \<Rightarrow>
               if beyond then
                 predict_lessons env model rs horizon rest
                   (fold (\<lambda>j m. m((i, j) \<mapsto> 21)) [0..<length rs] preds)
               else
                 predict_lessons env model rs horizon rest
                   (fold (\<lambda>(j, room) m. m((i, j) \<mapsto> predict_room env model lesson room))
                      (enumerate 0 rs) preds)))"

definition calculate_all_temperature_predictions ::
    "'m environment \<Rightarrow> room_optimizer \<Rightarrow> py_error + room_optimizer" where
  "calculate_all_temperature_predictions env self =
     (case load_model env of
        None \<Rightarrow> Inr self
      | Some model \<Rightarrow>
          (case predict_lessons env model (rooms self) (seven_days_from_now self)
                  (enumerate 0 (lessons self)) (temperature_predictions self) of
             Inl e \<Rightarrow> Inl e
           | Inr preds \<Rightarrow> Inr (self\<lparr>temperature_predictions := preds\<rparr>)))"

section \<open>Variables and hard constraints\<close>

definition create_assignment_variables :: "room_optimizer \<Rightarrow> var list" where
  "create_assignment_variables self =
     concat (map (\<lambda>(i, lesson). map (\<lambda>(j, room). (i, j)) (enumerate 0 (rooms self)))
               (enumerate 0 (lessons self)))"

text \<open>
  The room loop of \<^verbatim>\<open>_add_capacity_constraints\<close> for lesson \<open>i\<close>: it carries the list
  \<^verbatim>\<open>valid_rooms\<close> and the constraints added so far.
\<close>

fun capacity_rooms ::
    "nat \<Rightarrow> int \<Rightarrow> (nat \<times> room) list \<Rightarrow> var list \<Rightarrow> constraint list
       \<Rightarrow> var list \<times> constraint list" where
  "capacity_rooms i needed [] valid_rooms added = (valid_rooms, added)"
| "capacity_rooms i needed ((j, room) # rest) valid_rooms added =
     (if capacity room \<ge> needed
      then capacity_rooms i needed rest (valid_rooms @ [(i, j)]) added
      else capacity_rooms i needed rest valid_rooms (added @ [EqZero (i, j)]))"

definition capacity_lesson :: "room list \<Rightarrow> nat \<Rightarrow> lesson \<Rightarrow> constraint list" where
  "capacity_lesson rs i lesson =
     (let student_count = get_or (student_count lesson) 0;
          (valid_rooms, added) = capacity_rooms i student_count (enumerate 0 rs) [] []
      in if valid_rooms \<noteq> [] then added @ [ExactlyOne valid_rooms] else added)"

definition add_capacity_constraints :: "room_optimizer \<Rightarrow> constraint list" where
  "add_capacity_constraints self =
     concat (map (\<lambda>(i, lesson). capacity_lesson (rooms self) i lesson) (enumerate 0 (lessons self)))"

definition lesson_intervals :: "bool \<Rightarrow> lesson list \<Rightarrow> py_error + (datetime \<times> datetime) list" where
  "lesson_intervals reads_z ls =
     for_each (\<lambda>lesson.
       bind_err (fromisoformat reads_z (start_time lesson)) (\<lambda>start.
         bind_err (fromisoformat reads_z (end_time lesson)) (\<lambda>finish.
           Inr [(start, finish)])))
       ls"

text \<open>\<^verbatim>\<open>start1 < end2 and start2 < end1\<close>: the second comparison runs only when the first holds.\<close>

definition overlap :: "datetime \<times> datetime \<Rightarrow> datetime \<times> datetime \<Rightarrow> py_error + bool" where
  "overlap a b =
     (case (a, b) of ((start1, end1), (start2, end2)) \<Rightarrow>
        bind_err (dt_less start1 end2) (\<lambda>c. if c then dt_less start2 end1 else Inr False))"

definition add_no_overlap_constraints :: "bool \<Rightarrow> room_optimizer \<Rightarrow> py_error + constraint list" where
  "add_no_overlap_constraints reads_z self =
     bind_err (lesson_intervals reads_z (lessons self)) (\<lambda>intervals.
       for_each (\<lambda>(j, room).
         for_each (\<lambda>(i1, a).
           for_each (\<lambda>(i2, b).
             if i1 < i2 then
               bind_err (overlap a b) (\<lambda>c. if c then Inr [SumLeOne (i1, j) (i2, j)] else Inr [])
             else Inr [])
             (enumerate 0 intervals))
           (enumerate 0 intervals))
         (enumerate 0 (rooms self)))"

text \<open>
  A solver solution gives every variable the value 0 or 1 and satisfies every constraint
  of the model.
\<close>

fun holds :: "(var \<Rightarrow> int) \<Rightarrow> constraint \<Rightarrow> bool" where
  "holds val (EqZero x) = (val x = 0)"
| "holds val (ExactlyOne xs) = (sum_list (map val xs) = 1)"
| "holds val (SumLeOne x y) = (val x + val y \<le> 1)"

definition solution :: "(var \<Rightarrow> int) \<Rightarrow> var list \<Rightarrow> constraint list \<Rightarrow> bool" where
  "solution val vars cs =
     (list_all (\<lambda>x. val x = 0 \<or> val x = 1) vars \<and> list_all (holds val) cs)"

section \<open>The result\<close>

record scores =
  capacity_fit :: real
  equipment :: real
  temperature :: real
  overall :: real

record assignment =
  lesson :: lesson
  assigned_room :: room
  scores :: scores

record result =
  status :: string
  assignments :: "assignment list"
  message :: "string option"
  stats :: "solver_stats option"

text \<open>The room loop of \<^verbatim>\<open>_extract_solution\<close>: the first room whose variable has the value 1.\<close>

fun first_assigned :: "(var \<Rightarrow> int) \<Rightarrow> nat \<Rightarrow> (nat \<times> room) list \<Rightarrow> room option" where
  "first_assigned val i [] = None"
| "first_assigned val i ((j, room) # rest) =
     (if val (i, j) = 1 then Some room else first_assigned val i rest)"

definition extract_solution ::
    "room_optimizer \<Rightarrow> (var \<Rightarrow> int) \<Rightarrow> cp_status \<Rightarrow> solver_stats \<Rightarrow> py_error + result" where
  "extract_solution self val st sstats =
     bind_err
       (for_each (\<lambda>(i, lesson).
          case first_assigned val i (enumerate 0 (rooms self)) of
            None \<Rightarrow> Inr []
          | Some found \<Rightarrow>
              let assigned_room = found;
                  student_count = get_or (student_count lesson) 0;
                  capacity_fit =
                    (if capacity assigned_room > 0
                     then min (real_of_int student_count / real_of_int (capacity assigned_room)) 1
                     else 0);
                  equipment_score =
                    1 / 2 + (if get_or (hasAC assigned_room) False then 1 / 4 else 0)
                          + (if get_or (hasHeater assigned_room) False then 1 / 4 else 0)
              in bind_err (subscript (preferences self) ''capacity_weight'') (\<lambda>cw.
                 bind_err (subscript (preferences self) ''equipment_weight'') (\<lambda>ew.
                 bind_err (subscript (preferences self) ''temperature_weight'') (\<lambda>tw.
                   Inr [\<lparr> lesson = lesson,
                          assigned_room = assigned_room,
                          scores = \<lparr> capacity_fit = py_round3 capacity_fit,
                                     equipment = py_round3 equipment_score,
                                     temperature = 8 / 10,
                                     overall = py_round3 (capacity_fit * cw + equipment_score * ew
                                                          + 8 / 10 * tw) \<rparr> \<rparr>]))))
          (enumerate 0 (lessons self)))
       (\<lambda>optimized_assignments.
          Inr \<lparr> status = (if st = OPTIMAL then ''optimal'' else ''feasible''),
                assignments = optimized_assignments,
                message = None,
                stats = Some sstats \<rparr>)"

definition format_empty_result :: result where
  "format_empty_result =
     \<lparr> status = ''empty'', assignments = [], message = Some ''No lessons to optimize'',
       stats = None \<rparr>"

definition format_infeasible_result :: "solver_stats \<Rightarrow> result" where
  "format_infeasible_result sstats =
     \<lparr> status = ''infeasible'', assignments = [],
       message = Some ''No feasible room assignment found. Check constraints.'',
       stats = Some sstats \<rparr>"

section \<open>optimize\<close>

definition build_model :: "'m environment \<Rightarrow> room_optimizer \<Rightarrow> py_error + cp_model" where
  "build_model env self =
     (let assignments = create_assignment_variables self;
          fitting = add_capacity_constraints self
      in bind_err (add_no_overlap_constraints (z_suffix_read env) self) (\<lambda>no_overlap.
         bind_err (add_capacity_fit_objective self) (\<lambda>fit.
         bind_err (add_equipment_objective (z_suffix_read env) self) (\<lambda>equip.
         bind_err (add_temperature_objective self) (\<lambda>temp.
           Inr \<lparr> variables = assignments,
                 constraints = fitting @ no_overlap,
                 objective = fit @ equip @ temp \<rparr>)))))"

definition optimize :: "'m environment \<Rightarrow> room_optimizer \<Rightarrow> py_error + result" where
  "optimize env self =
     (if lessons self = [] then Inr format_empty_result
      else
        bind_err (calculate_all_temperature_predictions env self) (\<lambda>self.
        bind_err (build_model env self) (\<lambda>model.
          case solve env model of (st, val, sstats) \<Rightarrow>
            if st = OPTIMAL \<or> st = FEASIBLE then extract_solution self val st sstats
            else Inr (format_infeasible_result sstats))))"

section \<open>Sample data\<close>

definition room_a :: room where
  "room_a = \<lparr> room_id = ''r1'', name = ''A101'', capacity = 30,
              hasAC = Some True, hasHeater = Some False \<rparr>"

definition room_b :: room where
  "room_b = \<lparr> room_id = ''r2'', name = ''B202'', capacity = 10,
              hasAC = Some True, hasHeater = Some True \<rparr>"

definition lesson_a :: lesson where
  "lesson_a = \<lparr> lesson_id = ''l1'', title = ''Maths'',
       start_time = \<lparr> wall_clock = 32400, suffix = NoDesignator \<rparr>,
       end_time = \<lparr> wall_clock = 36000, suffix = NoDesignator \<rparr>,
       student_count = Some 20 \<rparr>"

definition lesson_b :: lesson where
  "lesson_b = \<lparr> lesson_id = ''l2'', title = ''Physics'',
       start_time = \<lparr> wall_clock = 34200, suffix = NoDesignator \<rparr>,
       end_time = \<lparr> wall_clock = 37800, suffix = NoDesignator \<rparr>,
       student_count = Some 25 \<rparr>"

definition lesson_z :: lesson where
  "lesson_z = \<lparr> lesson_id = ''l3'', title = ''History'',
       start_time = \<lparr> wall_clock = 32400, suffix = Zulu \<rparr>,
       end_time = \<lparr> wall_clock = 36000, suffix = Zulu \<rparr>,
       student_count = Some 20 \<rparr>"

definition lesson_far :: lesson where
  "lesson_far = \<lparr> lesson_id = ''l4'', title = ''Chemistry'',
       start_time = \<lparr> wall_clock = 1000000, suffix = NoDesignator \<rparr>,
       end_time = \<lparr> wall_clock = 1003600, suffix = NoDesignator \<rparr>,
       student_count = Some 50 \<rparr>"

definition sample_stats :: solver_stats where
  "sample_stats = \<lparr> conflicts = 0, branches = 4, wall_time = 1 / 100 \<rparr>"

definition sample_val :: "var \<Rightarrow> int" where
  "sample_val x = (if x = (0, 0) then 1 else 0)"

definition sample_env :: "unit environment" where
  "sample_env = \<lparr> z_suffix_read = True, load_model = None,
       hourly_temperatures = (\<lambda>model lesson room. Inr []),
       solve = (\<lambda>model. (OPTIMAL, sample_val, sample_stats)) \<rparr>"

definition room_c :: room where
  "room_c = \<lparr> room_id = ''r3'', name = ''C303'', capacity = 40,
              hasAC = None, hasHeater = Some True \<rparr>"

definition split_val :: "var \<Rightarrow> int" where
  "split_val x = (if x = (0, 0) \<or> x = (1, 1) then 1 else 0)"

definition forecast_env :: "unit environment" where
  "forecast_env = \<lparr> z_suffix_read = True, load_model = Some (),
       hourly_temperatures =
         (\<lambda>model lesson room. if room_id room = ''r1'' then Inr [22, 23] else Inl ValueError),
       solve = (\<lambda>model. (INFEASIBLE, sample_val, sample_stats)) \<rparr>"

section \<open>The specification's wording of the equipment score\<close>

text \<open>
  The equipment score as the specification words it, with both ends of every
  temperature interval written out, to be compared with the chain of strict tests in
  \<open>add_equipment_objective\<close>.
\<close>

definition spec_equipment_score :: "bool \<Rightarrow> real \<Rightarrow> bool \<Rightarrow> bool \<Rightarrow> int" where
  "spec_equipment_score beyond p ac heater =
     (if beyond then (if ac then 20 else 0) + (if heater then 20 else 0)
      else (if ac then (if p > 25 then 50 else if 23 < p \<and> p \<le> 25 then 30
                        else if 21 < p \<and> p \<le> 23 then 10 else 0) else 0)
         + (if heater then (if p < 17 then 50 else if 17 \<le> p \<and> p < 19 then 30
                            else if 19 \<le> p \<and> p < 21 then 10 else 0) else 0))"

section \<open>Notions used in the proofs\<close>

text \<open>The variables of lesson \<open>i\<close> for the rooms with at least \<open>n\<close> seats, in room order.\<close>

definition valid_vars :: "room list \<Rightarrow> nat \<Rightarrow> int \<Rightarrow> var list" where
  "valid_vars rs i n = map (\<lambda>j. (i, j)) (filter (\<lambda>j. capacity (rs ! j) \<ge> n) [0..<length rs])"

text \<open>
  The entry that the prediction pass writes for a lesson and a room, given the horizon
  \<open>h\<close>, and the assignment that the extraction reports for a lesson and its room under
  the three weights.
\<close>

definition predicted_entry ::
    "'m environment \<Rightarrow> 'm \<Rightarrow> int \<Rightarrow> lesson \<Rightarrow> room \<Rightarrow> real" where
  "predicted_entry env model h l r =
     (if h < wall_clock (start_time l) then 21 else predict_room env model l r)"

definition reported :: "real \<Rightarrow> real \<Rightarrow> real \<Rightarrow> lesson \<Rightarrow> room \<Rightarrow> assignment" where
  "reported cw ew tw l r =
     \<lparr> lesson = l, assigned_room = r,
       scores = \<lparr> capacity_fit = py_round3 (if capacity r > 0
                     then min (real_of_int (get_or (student_count l) 0) / real_of_int (capacity r)) 1
                     else 0),
                  equipment = py_round3 (1 / 2 + (if get_or (hasAC r) False then 1 / 4 else 0)
                          + (if get_or (hasHeater r) False then 1 / 4 else 0)),
                  temperature = 8 / 10,
                  overall = py_round3 ((if capacity r > 0
                     then min (real_of_int (get_or (student_count l) 0) / real_of_int (capacity r)) 1
                     else 0) * cw + (1 / 2 + (if get_or (hasAC r) False then 1 / 4 else 0)
                          + (if get_or (hasHeater r) False then 1 / 4 else 0)) * ew
                                                          + 8 / 10 * tw) \<rparr> \<rparr>"

section \<open>Loops that do not raise\<close>

lemma for_each_Inr:
  "(\<And>x. x \<in> set xs \<Longrightarrow> body x = Inr (g x)) \<Longrightarrow> for_each body xs = Inr (concat (map g xs))"
  by (induction xs) simp_all

lemma enumerate_fst_less:
  "(i, x) \<in> set (enumerate 0 xs) \<Longrightarrow> i < length xs \<and> x = xs ! i"
  by (auto simp: in_set_enumerate_eq)

lemma map_enumerate_index:
  "map f (enumerate 0 xs) = map (\<lambda>i. f (i, xs ! i)) [0..<length xs]"
  by (rule nth_equalityI) (simp_all add: nth_enumerate_eq)

lemma py_int_floor: "0 \<le> x \<Longrightarrow> py_int x = \<lfloor>x\<rfloor>"
  by (simp add: py_int_def)

lemma temp_score_nonneg: "0 \<le> temp_score p"
  by (simp add: temp_score_def)

lemma for_each_enumerate_Inr:
  assumes "\<And>i. i < length xs \<Longrightarrow> body (i, xs ! i) = Inr (g i)"
  shows "for_each body (enumerate 0 xs) = Inr (concat (map g [0..<length xs]))"
proof -
  have "for_each body (enumerate 0 xs) = Inr (concat (map (\<lambda>(i, x). g i) (enumerate 0 xs)))"
    by (rule for_each_Inr) (use assms in \<open>auto dest!: enumerate_fst_less\<close>)
  then show ?thesis
    by (simp add: map_enumerate_index case_prod_unfold)
qed

lemma for_each_enumerate_single:
  assumes "\<And>i. i < length xs \<Longrightarrow> body (i, xs ! i) = Inr [g i]"
  shows "for_each body (enumerate 0 xs) = Inr (map g [0..<length xs])"
  using for_each_enumerate_Inr [of xs body "\<lambda>i. [g i]"] assms by simp

lemma for_each_nested_Inr:
  assumes "\<And>i x j y. i < length xs \<Longrightarrow> j < length ys \<Longrightarrow> body i (xs ! i) j (ys ! j) = Inr (g i j)"
  shows "for_each (\<lambda>(i, x). for_each (\<lambda>(j, y). body i x j y) (enumerate 0 ys)) (enumerate 0 xs)
       = Inr (concat (map (\<lambda>i. concat (map (\<lambda>j. g i j) [0..<length ys])) [0..<length xs]))"
proof -
  have inner: "for_each (\<lambda>(j, y). body i (xs ! i) j y) (enumerate 0 ys)
      = Inr (concat (map (\<lambda>(j, y). g i j) (enumerate 0 ys)))" if "i < length xs" for i
    by (rule for_each_Inr) (use that assms in \<open>auto dest!: enumerate_fst_less\<close>)
  have "for_each (\<lambda>(i, x). for_each (\<lambda>(j, y). body i x j y) (enumerate 0 ys)) (enumerate 0 xs)
      = Inr (concat (map (\<lambda>(i, x). concat (map (\<lambda>(j, y). g i j) (enumerate 0 ys))) (enumerate 0 xs)))"
    by (rule for_each_Inr) (auto dest!: enumerate_fst_less simp: inner)
  then show ?thesis
    by (simp add: map_enumerate_index case_prod_unfold)
qed

lemma bind_err_Inr_iff: "bind_err m f = Inr y \<longleftrightarrow> (\<exists>x. m = Inr x \<and> f x = Inr y)"
  by (cases m) (simp_all add: bind_err_def)

lemma parse_naive:
  "suffix t = NoDesignator \<Longrightarrow> fromisoformat reads_z (replace_Z t) = Inr (Naive (wall_clock t))"
  by (simp add: fromisoformat_def replace_Z_def)

lemma build_model_Inr:
  assumes "build_model env self = Inr m"
  shows "variables m = create_assignment_variables self"
    and "\<exists>cs. add_no_overlap_constraints (z_suffix_read env) self = Inr cs
           \<and> constraints m = add_capacity_constraints self @ cs"
  using assms unfolding build_model_def Let_def bind_err_Inr_iff by auto

lemma vars_mem:
  "i < length (lessons self) \<Longrightarrow> j < length (rooms self) \<Longrightarrow>
     (i, j) \<in> set (create_assignment_variables self)"
  by (force simp: create_assignment_variables_def map_enumerate_index case_prod_unfold)

section \<open>The temperature-comfort term\<close>

lemma temperature_terms_general:
  assumes w: "map_of (preferences self) ''temperature_weight'' = Some w" and nn: "0 \<le> w"
  shows "add_temperature_objective self =
     Inr (concat (map (\<lambda>i. map (\<lambda>j.
            (\<lfloor>temp_score (get_or (temperature_predictions self (i, j)) 21) * w\<rfloor>, (i, j)))
          [0..<length (rooms self)]) [0..<length (lessons self)]))"
proof -
  let ?c = "\<lambda>i j. (\<lfloor>temp_score (get_or (temperature_predictions self (i, j)) 21) * w\<rfloor>, (i, j))"
  have inner: "for_each (\<lambda>(j, room).
         bind_err (subscript (preferences self) ''temperature_weight'') (\<lambda>w.
              Inr [(py_int (temp_score (get_or (temperature_predictions self (i, j)) 21) * w), (i, j))]))
         (enumerate 0 (rooms self))
     = Inr (concat (map (\<lambda>(j, room). [?c i j]) (enumerate 0 (rooms self))))" for i
    by (rule for_each_Inr)
       (auto simp: subscript_def bind_err_def w py_int_floor nn temp_score_nonneg)
  have "add_temperature_objective self =
     Inr (concat (map (\<lambda>(i, lesson). concat (map (\<lambda>(j, room). [?c i j]) (enumerate 0 (rooms self))))
       (enumerate 0 (lessons self))))"
    unfolding add_temperature_objective_def Let_def
    by (rule for_each_Inr) (auto simp: inner)
  then show ?thesis
    by (simp add: map_enumerate_index case_prod_unfold)
qed




section \<open>Symmetry of the comfort bands\<close>

text \<open>
  Claim C10: the band score is symmetric about 21 degrees: the temperatures 21 + d and
  21 - d score the same, for every offset d.
\<close>

theorem temp_score_symmetric: "temp_score (21 + d) = temp_score (21 - d)"
  by (simp add: temp_score_def)

theorem temp_score_symmetric_witness:
  "temp_score (21 + 7 / 2) = temp_score (21 - 7 / 2) \<and> temp_score (21 - 7 / 2) = 50"
  using temp_score_symmetric [of "7 / 2"] by (simp add: temp_score_def)

section \<open>The capacity-fit term\<close>

lemma capacity_fit_general:
  assumes w: "map_of (preferences self) ''capacity_weight'' = Some w" and nn: "0 \<le> w"
    and caps: "\<forall>r \<in> set (rooms self). 0 \<le> capacity r"
    and counts: "\<forall>l \<in> set (lessons self). 0 \<le> get_or (student_count l) 0"
  shows "add_capacity_fit_objective self =
     Inr (concat (map (\<lambda>i. concat (map (\<lambda>j.
            if capacity (rooms self ! j) \<ge> get_or (student_count (lessons self ! i)) 0
            then [(\<lfloor>(if capacity (rooms self ! j) = 0 then 0
                     else real_of_int (get_or (student_count (lessons self ! i)) 0)
                          / real_of_int (capacity (rooms self ! j))) * 100 * w\<rfloor>, (i, j))]
            else [])
          [0..<length (rooms self)])) [0..<length (lessons self)]))"
  unfolding add_capacity_fit_objective_def Let_def
proof (rule for_each_nested_Inr)
  fix i j :: nat and x :: lesson and y :: room
  assume i: "i < length (lessons self)" and j: "j < length (rooms self)"
  let ?sc = "get_or (student_count (lessons self ! i)) 0"
  let ?cap = "capacity (rooms self ! j)"
  have c: "0 \<le> ?cap" using caps j by simp
  have s: "0 \<le> ?sc" using counts i by simp
  have "0 \<le> (if 0 < ?cap then real_of_int ?sc / real_of_int ?cap else 0) * 100 * w"
    using c s nn by simp
  then show "(if ?sc \<le> ?cap
        then bind_err (subscript (preferences self) ''capacity_weight'')
               (\<lambda>w. Inr [(py_int ((if 0 < ?cap then real_of_int ?sc / real_of_int ?cap else 0) * 100 * w), i, j)])
        else Inr []) =
       Inr (if ?sc \<le> ?cap
            then [(\<lfloor>(if ?cap = 0 then 0 else real_of_int ?sc / real_of_int ?cap) * 100 * w\<rfloor>, i, j)]
            else [])"
    using c by (auto simp: subscript_def bind_err_def w py_int_floor)
qed



section \<open>The equipment term\<close>

lemma spec_equipment_score_nonneg: "0 \<le> spec_equipment_score b p ac h"
  by (simp add: spec_equipment_score_def)

lemma equipment_general:
  assumes w: "map_of (preferences self) ''equipment_weight'' = Some w" and nn: "0 \<le> w"
    and horizon: "seven_days_from_now self = Naive h"
    and naive: "\<forall>l \<in> set (lessons self). suffix (start_time l) = NoDesignator"
  shows "add_equipment_objective reads_z self =
     Inr (concat (map (\<lambda>i. map (\<lambda>j.
            (\<lfloor>real_of_int (spec_equipment_score (h < wall_clock (start_time (lessons self ! i)))
                              (get_or (temperature_predictions self (i, j)) 21)
                              (get_or (hasAC (rooms self ! j)) False)
                              (get_or (hasHeater (rooms self ! j)) False)) * w\<rfloor>, (i, j)))
          [0..<length (rooms self)]) [0..<length (lessons self)]))"
proof -
  have pos: "0 \<le> real_of_int (spec_equipment_score b q ac ht) * w" for b q ac ht
    using nn spec_equipment_score_nonneg [of b q ac ht] by simp
  have p: "fromisoformat reads_z (replace_Z (start_time (lessons self ! i)))
      = Inr (Naive (wall_clock (start_time (lessons self ! i))))" if "i < length (lessons self)" for i
    using that naive by (simp add: parse_naive)
  show ?thesis
    unfolding add_equipment_objective_def Let_def
    apply (rule for_each_enumerate_Inr)
    apply (simp only: prod.case p bind_err_def sum.case)
    apply (rule for_each_enumerate_single)
    using nn
    apply (auto simp: horizon dt_greater_def subscript_def w py_int_def spec_equipment_score_def zero_le_mult_iff)
    done
qed



section \<open>The capacity constraints\<close>

lemma capacity_rooms_eq:
  "capacity_rooms i n ers valid added =
     (valid @ map (\<lambda>(j, r). (i, j)) (filter (\<lambda>(j, r). capacity r \<ge> n) ers),
      added @ map (\<lambda>(j, r). EqZero (i, j)) (filter (\<lambda>(j, r). \<not> capacity r \<ge> n) ers))"
  by (induction ers arbitrary: valid added) auto

lemma filter_enumerate_index:
  "map f (filter P (enumerate 0 xs)) =
     map (\<lambda>i. f (i, xs ! i)) (filter (\<lambda>i. P (i, xs ! i)) [0..<length xs])"
proof -
  have "enumerate 0 xs = map (\<lambda>i. (i, xs ! i)) [0..<length xs]"
    using map_enumerate_index [of "\<lambda>x. x" xs] by simp
  then show ?thesis by (simp add: filter_map comp_def)
qed

lemma capacity_lesson_eq:
  "capacity_lesson rs i l =
     map (\<lambda>j. EqZero (i, j)) (filter (\<lambda>j. \<not> capacity (rs ! j) \<ge> get_or (student_count l) 0) [0..<length rs])
     @ (if valid_vars rs i (get_or (student_count l) 0) \<noteq> []
        then [ExactlyOne (valid_vars rs i (get_or (student_count l) 0))] else [])"
  by (simp add: capacity_lesson_def capacity_rooms_eq filter_enumerate_index valid_vars_def Let_def)

lemma capacity_lesson_subset:
  "i < length (lessons self) \<Longrightarrow>
     set (capacity_lesson (rooms self) i (lessons self ! i)) \<subseteq> set (add_capacity_constraints self)"
  by (auto simp: add_capacity_constraints_def map_enumerate_index case_prod_unfold)

lemma exactly_one_unique:
  fixes f :: "'a \<Rightarrow> int"
  assumes "\<forall>j \<in> set js. f j = 0 \<or> f j = 1" and "distinct js" and "sum_list (map f js) = 1"
  shows "\<exists>!j. j \<in> set js \<and> f j = 1"
  using assms
proof (induction js)
  case Nil
  then show ?case by simp
next
  case (Cons a js)
  have nonneg: "\<forall>j \<in> set js. 0 \<le> f j" using Cons.prems(1) by auto
  show ?case
  proof (cases "f a = 1")
    case True
    then have "sum_list (map f js) = 0" using Cons.prems(3) by simp
    then have "\<forall>j \<in> set js. f j = 0"
      using nonneg sum_list_nonneg_eq_0_iff [of "map f js"] by auto
    then show ?thesis using True by auto
  next
    case False
    then have "f a = 0" using Cons.prems(1) by auto
    then have "sum_list (map f js) = 1" using Cons.prems(3) by simp
    then have "\<exists>!j. j \<in> set js \<and> f j = 1"
      using Cons.IH Cons.prems by auto
    then show ?thesis using False by auto
  qed
qed

lemma first_assigned_None:
  "(\<forall>j < length rs. val (i, j) \<noteq> 1) \<Longrightarrow> first_assigned val i (enumerate 0 rs) = None"
proof -
  have "(\<forall>(j, r) \<in> set ers. val (i, j) \<noteq> 1) \<Longrightarrow> first_assigned val i ers = None" for ers
    by (induction ers) auto
  moreover assume "\<forall>j < length rs. val (i, j) \<noteq> 1"
  ultimately show ?thesis
    by (auto dest!: enumerate_fst_less)
qed

text \<open>
  Claim C1. Let the model be built and let the solver's values be a solution of it. For
  every lesson \<open>i\<close>: the variable of each room with fewer seats than the lesson has
  students is forced to 0 by a constraint of the model; if some room has enough seats,
  exactly one of the variables of the rooms with enough seats has the value 1; and if no
  room has enough seats, the extraction finds no room for the lesson.
\<close>

theorem capacity_constraints_solution:
  assumes build: "build_model env self = Inr m"
    and sol: "solution val (variables m) (constraints m)"
    and i: "i < length (lessons self)"
  shows "(\<forall>j < length (rooms self).
            capacity (rooms self ! j) < get_or (student_count (lessons self ! i)) 0 \<longrightarrow>
              EqZero (i, j) \<in> set (constraints m) \<and> val (i, j) = 0)
       \<and> ((\<exists>j < length (rooms self).
              capacity (rooms self ! j) \<ge> get_or (student_count (lessons self ! i)) 0) \<longrightarrow>
            (\<exists>!j. j < length (rooms self)
                 \<and> capacity (rooms self ! j) \<ge> get_or (student_count (lessons self ! i)) 0
                 \<and> val (i, j) = 1))
       \<and> ((\<forall>j < length (rooms self).
              capacity (rooms self ! j) < get_or (student_count (lessons self ! i)) 0) \<longrightarrow>
            first_assigned val i (enumerate 0 (rooms self)) = None)"
proof -
  let ?n = "get_or (student_count (lessons self ! i)) 0"
  let ?rs = "rooms self"
  from build_model_Inr [OF build] obtain cs where
    vs: "variables m = create_assignment_variables self" and
    cs: "constraints m = add_capacity_constraints self @ cs" by blast
  have all: "\<forall>c \<in> set (capacity_lesson ?rs i (lessons self ! i)). c \<in> set (constraints m) \<and> holds val c"
    using sol capacity_lesson_subset [OF i] by (auto simp: solution_def list_all_iff cs)
  have bool: "val (i, j) = 0 \<or> val (i, j) = 1" if "j < length ?rs" for j
    using sol vars_mem [OF i that] by (auto simp: solution_def list_all_iff vs)
  have zero: "EqZero (i, j) \<in> set (constraints m) \<and> val (i, j) = 0"
    if "j < length ?rs" "capacity (?rs ! j) < ?n" for j
  proof -
    have "EqZero (i, j) \<in> set (capacity_lesson ?rs i (lessons self ! i))"
      using that by (auto simp: capacity_lesson_eq)
    with all have "EqZero (i, j) \<in> set (constraints m) \<and> holds val (EqZero (i, j))" by blast
    then show ?thesis by simp
  qed
  have one: "\<exists>!j. j < length ?rs \<and> capacity (?rs ! j) \<ge> ?n \<and> val (i, j) = 1"
    if ex: "\<exists>j < length ?rs. capacity (?rs ! j) \<ge> ?n"
  proof -
    let ?js = "filter (\<lambda>j. capacity (?rs ! j) \<ge> ?n) [0..<length ?rs]"
    have ne: "valid_vars ?rs i ?n \<noteq> []"
      using ex by (auto simp: valid_vars_def filter_empty_conv)
    then have "ExactlyOne (valid_vars ?rs i ?n) \<in> set (capacity_lesson ?rs i (lessons self ! i))"
      by (simp add: capacity_lesson_eq)
    with all have "holds val (ExactlyOne (valid_vars ?rs i ?n))" by blast
    then have s: "sum_list (map (\<lambda>j. val (i, j)) ?js) = 1"
      by (simp add: valid_vars_def comp_def)
    have "\<exists>!j. j \<in> set ?js \<and> val (i, j) = 1"
      by (rule exactly_one_unique) (use bool s in auto)
    then show ?thesis by auto
  qed
  have none: "first_assigned val i (enumerate 0 ?rs) = None"
    if "\<forall>j < length ?rs. capacity (?rs ! j) < ?n"
    by (rule first_assigned_None) (use that zero in auto)
  from zero one none show ?thesis by blast
qed


theorem capacity_constraints_solution_witness: "sample_val (0, 1) = 0 \<and> sample_val (0, 0) = 1
   \<and> first_assigned sample_val 1 (enumerate 0 [room_a, room_b]) = None"
proof -
  let ?self = "init 0 [room_a, room_b] [lesson_a, lesson_far] None"
  let ?m = "\<lparr>variables = [(0, 0), (0, 1), (1, 0), (1, 1)],
        constraints = [EqZero (0, 1), ExactlyOne [(0, 0)], EqZero (1, 0), EqZero (1, 1)],
        objective = [(33, 0, 0), (0, 0, 0), (0, 0, 1), (4, 1, 0), (8, 1, 1),
           (30, 0, 0), (30, 0, 1), (30, 1, 0), (30, 1, 1)]\<rparr>"
  have b: "build_model sample_env ?self = Inr ?m"
    by (simp add: build_model_def sample_env_def init_def create_assignment_variables_def
        add_capacity_constraints_def capacity_lesson_def add_no_overlap_constraints_def
        lesson_intervals_def overlap_def add_capacity_fit_objective_def
        add_equipment_objective_def add_temperature_objective_def bind_err_def
        fromisoformat_def replace_Z_def dt_greater_def subscript_def default_preferences_def
        room_a_def room_b_def lesson_a_def lesson_far_def get_or_def py_int_def temp_score_def)
  have s: "solution sample_val (variables ?m) (constraints ?m)"
    by (simp add: solution_def sample_val_def)
  have "rooms ?self = [room_a, room_b]" "lessons ?self = [lesson_a, lesson_far]"
    by (simp_all add: init_def)
  then have i0: "0 < length (lessons ?self)" and i1: "1 < length (lessons ?self)" by simp_all
  from capacity_constraints_solution [OF b s i0] capacity_constraints_solution [OF b s i1]
  show ?thesis
    by (simp add: sample_val_def)
qed

section \<open>The no-overlap constraints\<close>

lemma for_each_Inr_mem:
  "for_each body xs = Inr ys \<Longrightarrow> x \<in> set xs \<Longrightarrow> \<exists>zs. body x = Inr zs \<and> set zs \<subseteq> set ys"
proof (induction xs arbitrary: ys)
  case Nil
  then show ?case by simp
next
  case (Cons a xs)
  then obtain zs rest where b: "body a = Inr zs" and r: "for_each body xs = Inr rest"
    and y: "ys = zs @ rest"
    by (auto split: sum.splits)
  show ?case
  proof (cases "x = a")
    case True
    then show ?thesis using b y by simp
  next
    case False
    then have "x \<in> set xs" using Cons.prems(2) by simp
    from Cons.IH [OF r this] y show ?thesis by auto
  qed
qed

lemma for_each_Inr_concat:
  "for_each body xs = Inr ys \<Longrightarrow> ys = concat (map (\<lambda>x. projr (body x)) xs)"
  by (induction xs arbitrary: ys) (auto split: sum.splits)

lemma lesson_intervals_nth:
  assumes "lesson_intervals rz ls = Inr ivs" and "i < length ls"
  shows "length ivs = length ls
       \<and> fromisoformat rz (start_time (ls ! i)) = Inr (fst (ivs ! i))
       \<and> fromisoformat rz (end_time (ls ! i)) = Inr (snd (ivs ! i))"
proof -
  let ?body = "\<lambda>l. bind_err (fromisoformat rz (start_time l)) (\<lambda>start.
         bind_err (fromisoformat rz (end_time l)) (\<lambda>finish. Inr [(start, finish)]))"
  have loop: "for_each ?body ls = Inr ivs"
    using assms(1) by (simp add: lesson_intervals_def)
  have ivs: "ivs = concat (map (\<lambda>l. projr (?body l)) ls)"
    by (rule for_each_Inr_concat [OF loop])
  have one: "\<exists>s e. fromisoformat rz (start_time l) = Inr s \<and> fromisoformat rz (end_time l) = Inr e
      \<and> projr (?body l) = [(s, e)]" if "l \<in> set ls" for l
  proof -
    from for_each_Inr_mem [OF loop that] obtain zs where "?body l = Inr zs" by blast
    then obtain s e where "fromisoformat rz (start_time l) = Inr s"
        "fromisoformat rz (end_time l) = Inr e"
      by (auto simp: bind_err_Inr_iff)
    then show ?thesis by (simp add: bind_err_def)
  qed
  then have sing: "\<forall>l \<in> set ls. projr (?body l) = [(projr (fromisoformat rz (start_time l)),
      projr (fromisoformat rz (end_time l)))]"
    by fastforce
  have "concat (map (\<lambda>l. projr (?body l)) ls)
      = concat (map (\<lambda>l. [(projr (fromisoformat rz (start_time l)),
                            projr (fromisoformat rz (end_time l)))]) ls)"
    by (rule arg_cong [where f = concat], rule map_cong) (use sing in auto)
  then have eq: "ivs = map (\<lambda>l. (projr (fromisoformat rz (start_time l)),
      projr (fromisoformat rz (end_time l)))) ls"
    unfolding ivs by simp
  from one [of "ls ! i"] assms(2) eq show ?thesis by fastforce
qed

lemma no_overlap_general:
  assumes cs: "add_no_overlap_constraints rz self = Inr cs"
    and j: "j < length (rooms self)" and lt: "i1 < i2" and i2: "i2 < length (lessons self)"
    and p: "fromisoformat rz (start_time (lessons self ! i1)) = Inr start1"
           "fromisoformat rz (end_time (lessons self ! i1)) = Inr end1"
           "fromisoformat rz (start_time (lessons self ! i2)) = Inr start2"
           "fromisoformat rz (end_time (lessons self ! i2)) = Inr end2"
    and ov: "dt_less start1 end2 = Inr True" "dt_less start2 end1 = Inr True"
  shows "SumLeOne (i1, j) (i2, j) \<in> set cs"
proof -
  from cs obtain ivs where ivs: "lesson_intervals rz (lessons self) = Inr ivs"
    and loop: "for_each (\<lambda>(j, room).
         for_each (\<lambda>(i1, a).
           for_each (\<lambda>(i2, b).
             if i1 < i2 then
               bind_err (overlap a b) (\<lambda>c. if c then Inr [SumLeOne (i1, j) (i2, j)] else Inr [])
             else Inr [])
             (enumerate 0 ivs))
           (enumerate 0 ivs))
         (enumerate 0 (rooms self)) = Inr cs"
    by (auto simp: add_no_overlap_constraints_def bind_err_Inr_iff)
  have i1: "i1 < length (lessons self)" using lt i2 by simp
  from lesson_intervals_nth [OF ivs i1] lesson_intervals_nth [OF ivs i2] p
  have len: "length ivs = length (lessons self)"
    and a: "ivs ! i1 = (start1, end1)" and b: "ivs ! i2 = (start2, end2)"
    by (auto simp: prod_eq_iff)
  have ovl: "overlap (ivs ! i1) (ivs ! i2) = Inr True"
    by (simp add: a b overlap_def ov bind_err_def)
  have mj: "(j, rooms self ! j) \<in> set (enumerate 0 (rooms self))"
    using j by (simp add: in_set_enumerate_eq)
  have m1: "(i1, ivs ! i1) \<in> set (enumerate 0 ivs)"
    using i1 len by (simp add: in_set_enumerate_eq)
  have m2: "(i2, ivs ! i2) \<in> set (enumerate 0 ivs)"
    using i2 len by (simp add: in_set_enumerate_eq)
  from for_each_Inr_mem [OF loop mj] obtain zs1 where
    l1: "for_each (\<lambda>(i1, a).
           for_each (\<lambda>(i2, b).
             if i1 < i2 then
               bind_err (overlap a b) (\<lambda>c. if c then Inr [SumLeOne (i1, j) (i2, j)] else Inr [])
             else Inr [])
             (enumerate 0 ivs))
           (enumerate 0 ivs) = Inr zs1" and s1: "set zs1 \<subseteq> set cs"
    by fastforce
  from for_each_Inr_mem [OF l1 m1] obtain zs2 where
    l2: "for_each (\<lambda>(i2, b).
             if i1 < i2 then
               bind_err (overlap (ivs ! i1) b) (\<lambda>c. if c then Inr [SumLeOne (i1, j) (i2, j)] else Inr [])
             else Inr [])
             (enumerate 0 ivs) = Inr zs2" and s2: "set zs2 \<subseteq> set zs1"
    by fastforce
  from for_each_Inr_mem [OF l2 m2] obtain zs3 where
    l3: "(if i1 < i2 then
               bind_err (overlap (ivs ! i1) (ivs ! i2)) (\<lambda>c. if c then Inr [SumLeOne (i1, j) (i2, j)] else Inr [])
             else Inr []) = Inr zs3" and s3: "set zs3 \<subseteq> set zs2"
    by fastforce
  from l3 have "zs3 = [SumLeOne (i1, j) (i2, j)]"
    by (simp add: lt ovl bind_err_def)
  with s1 s2 s3 show ?thesis by auto
qed

text \<open>
  Claim C2. Let the model be built and let the solver's values be a solution of it. For
  every room \<open>j\<close> and every two lessons \<open>i1 < i2\<close> whose times parse and satisfy
  start1 < end2 and start2 < end1, the model holds the constraint
  variable(i1, j) + variable(i2, j) \<le> 1, so the two values sum to at most 1.
\<close>

theorem no_overlap_solution:
  assumes build: "build_model env self = Inr m"
    and sol: "solution val (variables m) (constraints m)"
    and j: "j < length (rooms self)" and lt: "i1 < i2" and i2: "i2 < length (lessons self)"
    and p: "fromisoformat (z_suffix_read env) (start_time (lessons self ! i1)) = Inr start1"
           "fromisoformat (z_suffix_read env) (end_time (lessons self ! i1)) = Inr end1"
           "fromisoformat (z_suffix_read env) (start_time (lessons self ! i2)) = Inr start2"
           "fromisoformat (z_suffix_read env) (end_time (lessons self ! i2)) = Inr end2"
    and ov: "dt_less start1 end2 = Inr True" "dt_less start2 end1 = Inr True"
  shows "SumLeOne (i1, j) (i2, j) \<in> set (constraints m) \<and> val (i1, j) + val (i2, j) \<le> 1"
proof -
  from build_model_Inr(2) [OF build] obtain cs where
    cs: "add_no_overlap_constraints (z_suffix_read env) self = Inr cs"
    and m: "constraints m = add_capacity_constraints self @ cs"
    by blast
  have mem: "SumLeOne (i1, j) (i2, j) \<in> set cs"
    by (rule no_overlap_general [OF cs j lt i2 p ov])
  then have "SumLeOne (i1, j) (i2, j) \<in> set (constraints m)" by (simp add: m)
  moreover from this sol have "holds val (SumLeOne (i1, j) (i2, j))"
    by (auto simp: solution_def list_all_iff)
  ultimately show ?thesis by simp
qed

theorem no_overlap_solution_witness: "build_model sample_env (init 0 [room_a, room_c] [lesson_a, lesson_b] None) =
     Inr \<lparr>variables = [(0, 0), (0, 1), (1, 0), (1, 1)],
        constraints =
          [ExactlyOne [(0, 0), (0, 1)], ExactlyOne [(1, 0), (1, 1)],
           SumLeOne (0, 0) (1, 0), SumLeOne (0, 1) (1, 1)],
        objective =
          [(33, 0, 0), (25, 0, 1), (41, 1, 0), (31, 1, 1), (0, 0, 0),
           (0, 0, 1), (0, 1, 0), (0, 1, 1), (30, 0, 0), (30, 0, 1),
           (30, 1, 0), (30, 1, 1)]\<rparr>
   \<and> split_val (0, 0) + split_val (1, 0) \<le> 1 \<and> split_val (0, 0) = 1"
proof -
  let ?self = "init 0 [room_a, room_c] [lesson_a, lesson_b] None"
  let ?m = "\<lparr>variables = [(0, 0), (0, 1), (1, 0), (1, 1)],
        constraints =
          [ExactlyOne [(0, 0), (0, 1)], ExactlyOne [(1, 0), (1, 1)],
           SumLeOne (0, 0) (1, 0), SumLeOne (0, 1) (1, 1)],
        objective =
          [(33, 0, 0), (25, 0, 1), (41, 1, 0), (31, 1, 1), (0, 0, 0),
           (0, 0, 1), (0, 1, 0), (0, 1, 1), (30, 0, 0), (30, 0, 1),
           (30, 1, 0), (30, 1, 1)]\<rparr>"
  have b: "build_model sample_env ?self = Inr ?m"
    by (simp add: build_model_def sample_env_def init_def create_assignment_variables_def
        add_capacity_constraints_def capacity_lesson_def add_no_overlap_constraints_def
        lesson_intervals_def overlap_def add_capacity_fit_objective_def
        add_equipment_objective_def add_temperature_objective_def bind_err_def
        fromisoformat_def replace_Z_def dt_greater_def subscript_def default_preferences_def
        room_a_def room_c_def lesson_a_def lesson_b_def get_or_def py_int_def temp_score_def)
  have s: "solution split_val (variables ?m) (constraints ?m)"
    by (simp add: solution_def split_val_def)
  have j: "0 < length (rooms ?self)" and lt: "(0::nat) < 1" and i2: "1 < length (lessons ?self)"
    by (simp_all add: init_def)
  have p: "fromisoformat (z_suffix_read sample_env) (start_time (lessons ?self ! 0)) = Inr (Naive 32400)"
      "fromisoformat (z_suffix_read sample_env) (end_time (lessons ?self ! 0)) = Inr (Naive 36000)"
      "fromisoformat (z_suffix_read sample_env) (start_time (lessons ?self ! 1)) = Inr (Naive 34200)"
      "fromisoformat (z_suffix_read sample_env) (end_time (lessons ?self ! 1)) = Inr (Naive 37800)"
    by (simp_all add: init_def fromisoformat_def lesson_a_def lesson_b_def)
  have ov: "dt_less (Naive 32400) (Naive 37800) = Inr True"
      "dt_less (Naive 34200) (Naive 36000) = Inr True"
    by simp_all
  from no_overlap_solution [OF b s j lt i2 p ov] b show ?thesis
    by (simp add: split_val_def)
qed

section \<open>The temperature predictions before the objective\<close>

lemma fold_default_row:
  "fold (\<lambda>j m. m((i, j) \<mapsto> v)) [0..<n] preds
     = (\<lambda>k. if fst k = i \<and> snd k < n then Some v else preds k)"
  by (induction n) (auto simp: fun_eq_iff less_Suc_eq)

lemma fold_predicted_row:
  "fold (\<lambda>(j, room) m. m((i, j) \<mapsto> f room)) (enumerate 0 rs) preds
     = (\<lambda>k. if fst k = i \<and> snd k < length rs then Some (f (rs ! snd k)) else preds k)"
proof (induction rs rule: rev_induct)
  case Nil
  then show ?case by simp
next
  case (snoc r rs)
  then show ?case
    by (auto simp: enumerate_append_eq fun_eq_iff less_Suc_eq nth_append)
qed

lemma predict_lessons_result:
  assumes "\<forall>l \<in> set ls. suffix (start_time l) = NoDesignator"
  shows "predict_lessons env model rs (Naive h) (enumerate n ls) preds =
     Inr (\<lambda>k. if n \<le> fst k \<and> fst k < n + length ls \<and> snd k < length rs
               then Some (predicted_entry env model h (ls ! (fst k - n)) (rs ! snd k))
               else preds k)"
  using assms
proof (induction ls arbitrary: n preds)
  case Nil
  then show ?case by (auto simp: fun_eq_iff)
next
  case (Cons l ls)
  have p: "fromisoformat (z_suffix_read env) (replace_Z (start_time l)) = Inr (Naive (wall_clock (start_time l)))"
    using Cons.prems by (simp add: parse_naive)
  have rest: "\<forall>l \<in> set ls. suffix (start_time l) = NoDesignator"
    using Cons.prems by simp
  show ?case
    by (auto simp: p dt_greater_def Cons.IH [OF rest] fold_default_row fold_predicted_row
        fun_eq_iff predicted_entry_def nth_Cons')
qed

lemma predict_lessons_enumerate:
  assumes "\<forall>l \<in> set ls. suffix (start_time l) = NoDesignator"
  shows "predict_lessons env model rs (Naive h) (enumerate 0 ls) preds =
     Inr (\<lambda>k. if fst k < length ls \<and> snd k < length rs
               then Some (predicted_entry env model h (ls ! fst k) (rs ! snd k))
               else preds k)"
  using predict_lessons_result [OF assms, of env model rs h 0 preds]
  by (simp cong: if_cong)

lemma calculate_result:
  assumes horizon: "seven_days_from_now self = Naive h"
    and naive: "\<forall>l \<in> set (lessons self). suffix (start_time l) = NoDesignator"
  shows "calculate_all_temperature_predictions env self =
     Inr (case load_model env of
            None \<Rightarrow> self
          | Some model \<Rightarrow> self\<lparr>temperature_predictions :=
              (\<lambda>k. if fst k < length (lessons self) \<and> snd k < length (rooms self)
                    then Some (predicted_entry env model h (lessons self ! fst k) (rooms self ! snd k))
                    else temperature_predictions self k)\<rparr>)"
proof (cases "load_model env")
  case None
  then show ?thesis by (simp add: calculate_all_temperature_predictions_def)
next
  case (Some model)
  then show ?thesis
    using predict_lessons_enumerate [OF naive, of env model "rooms self" h "temperature_predictions self"]
    by (simp add: calculate_all_temperature_predictions_def horizon)
qed

text \<open>
  Claim C6, as the code has it. For lessons whose start times carry no designator the
  prediction pass returns. When the regression model cannot be loaded the map stays
  empty, and each read \<^verbatim>\<open>temperature_predictions.get((i, j), 21.0)\<close> of the objective
  builders gives 21. When the model is loaded the map has an entry for every
  (lesson, room) pair: 21 for a lesson beyond the horizon, 21 when the forecast of the
  pair raises or gives no hourly value, and the mean of the hourly values otherwise.
\<close>

theorem predictions_defined:
  assumes "\<forall>l \<in> set ls. suffix (start_time l) = NoDesignator"
  shows "\<exists>self'. calculate_all_temperature_predictions env (init now rs ls prefs) = Inr self'
     \<and> (case load_model env of
          None \<Rightarrow> temperature_predictions self' = Map.empty
                  \<and> (\<forall>i j. get_or (temperature_predictions self' (i, j)) 21 = 21)
        | Some model \<Rightarrow>
            (\<forall>i < length ls. \<forall>j < length rs.
               temperature_predictions self' (i, j) =
                 Some (if now + 604800 < wall_clock (start_time (ls ! i)) then 21
                       else case hourly_temperatures env model (ls ! i) (rs ! j) of
                              Inl e \<Rightarrow> 21
                            | Inr temperatures \<Rightarrow>
                                if temperatures = [] then 21
                                else sum_list temperatures / real (length temperatures))))"
proof -
  let ?self = "init now rs ls prefs"
  have h: "seven_days_from_now ?self = Naive (now + 604800)"
    and l: "lessons ?self = ls" and r: "rooms ?self = rs"
    and e: "temperature_predictions ?self = Map.empty"
    by (simp_all add: init_def)
  have n: "\<forall>l \<in> set (lessons ?self). suffix (start_time l) = NoDesignator"
    using assms l by simp
  show ?thesis
    unfolding calculate_result [OF h n, of env]
    by (auto simp: l r e get_or_def predicted_entry_def predict_room_def
        split: option.splits sum.splits)
qed

theorem predictions_defined_witness: "\<exists>self'. calculate_all_temperature_predictions forecast_env
               (init 0 [room_a, room_b] [lesson_a, lesson_far] None) = Inr self'
    \<and> temperature_predictions self' (0, 0) = Some (45 / 2)
    \<and> temperature_predictions self' (0, 1) = Some 21
    \<and> temperature_predictions self' (1, 0) = Some 21"
proof -
  have 1: "\<forall>l \<in> set [lesson_a, lesson_far]. suffix (start_time l) = NoDesignator"
    by (simp add: lesson_a_def lesson_far_def)
  from predictions_defined [OF 1, of forecast_env 0 "[room_a, room_b]" None]
  show ?thesis
    by (auto simp: forecast_env_def lesson_a_def lesson_far_def room_a_def room_b_def)
qed

text \<open>
  Claim C6 as the specification states it asks for an entry of the map for every pair,
  also when the model cannot be loaded. There the pass returns at once and the map has
  no entry.
\<close>

theorem predictions_unpopulated_counterexample: "calculate_all_temperature_predictions sample_env (init 0 [room_a] [lesson_a] None)
     = Inr (init 0 [room_a] [lesson_a] None)
   \<and> temperature_predictions (init 0 [room_a] [lesson_a] None) (0, 0) = None"
  by (simp add: calculate_all_temperature_predictions_def sample_env_def init_def)

section \<open>The reported scores\<close>

lemma for_each_total:
  assumes "\<And>x. x \<in> set xs \<Longrightarrow> \<exists>zs. body x = Inr zs"
  shows "\<exists>ys. for_each body xs = Inr ys"
proof -
  have "for_each body xs = Inr (concat (map (\<lambda>x. projr (body x)) xs))"
    by (rule for_each_Inr) (use assms in fastforce)
  then show ?thesis by blast
qed

lemma subscript_Some: "map_of d k = Some w \<Longrightarrow> subscript d k = Inr w"
  by (simp add: subscript_def)

lemma bind_for_each_enumerate:
  assumes "\<And>i. i < length xs \<Longrightarrow> body (i, xs ! i) = Inr (g i)"
  shows "bind_err (for_each body (enumerate 0 xs)) (\<lambda>a. Inr (k a))
       = Inr (k (concat (map g [0..<length xs])))"
  using for_each_enumerate_Inr [of xs body g, OF assms] by (simp add: bind_err_def)

lemma extract_solution_result:
  assumes "map_of (preferences self) ''capacity_weight'' = Some cw"
    and "map_of (preferences self) ''equipment_weight'' = Some ew"
    and "map_of (preferences self) ''temperature_weight'' = Some tw"
  shows "extract_solution self val st sstats =
           Inr \<lparr> status = (if st = OPTIMAL then ''optimal'' else ''feasible''),
                 assignments = concat (map (\<lambda>i.
                    case first_assigned val i (enumerate 0 (rooms self)) of
                      None \<Rightarrow> []
                    | Some r \<Rightarrow> [reported cw ew tw (lessons self ! i) r])
                  [0..<length (lessons self)]),
                 message = None, stats = Some sstats \<rparr>"
  unfolding extract_solution_def
  by (rule bind_for_each_enumerate)
     (auto simp: subscript_Some [OF assms(1)] subscript_Some [OF assms(2)]
        subscript_Some [OF assms(3)] bind_err_def Let_def reported_def split: option.splits)

lemma extract_solution_ignores_predictions:
  "extract_solution (self\<lparr>temperature_predictions := preds\<rparr>) val st sstats
     = extract_solution self val st sstats"
  by (simp add: extract_solution_def cong: option.case_cong)



section \<open>Defaults of the preferences\<close>

text \<open>
  Claim C9, as the code has it. The preferences default as a whole: an absent or empty
  mapping is replaced by capacity 0.5, equipment 0.2, temperature 0.3. A non-empty
  mapping is kept as it is, and reading a weight it lacks raises KeyError.
\<close>

theorem preferences_defaulting:
  "preferences (init now rs ls None) = default_preferences
   \<and> preferences (init now rs ls (Some [])) = default_preferences
   \<and> subscript default_preferences ''capacity_weight'' = Inr (5 / 10)
   \<and> subscript default_preferences ''equipment_weight'' = Inr (2 / 10)
   \<and> subscript default_preferences ''temperature_weight'' = Inr (3 / 10)
   \<and> (d \<noteq> [] \<longrightarrow> preferences (init now rs ls (Some d)) = d)
   \<and> (d \<noteq> [] \<longrightarrow> map_of d k = None \<longrightarrow>
         subscript (preferences (init now rs ls (Some d))) k = Inl (KeyError k))"
  by (simp add: init_def subscript_def default_preferences_def)

theorem preferences_defaulting_witness: "preferences (init 0 [room_a] [lesson_a] (Some [(''temperature_weight'', 1)]))
     = [(''temperature_weight'', 1)]
   \<and> subscript (preferences (init 0 [room_a] [lesson_a] (Some [(''temperature_weight'', 1)])))
        ''capacity_weight'' = Inl (KeyError ''capacity_weight'')"
  using preferences_defaulting [of 0 "[room_a]" "[lesson_a]" "[(''temperature_weight'', 1)]"
      "''capacity_weight''"]
  by (simp add: init_def subscript_def)

text \<open>
  Claim C9 as the specification states it: a mapping that holds the temperature weight
  only would get the capacity weight 0.5. The capacity-fit builder raises KeyError.
\<close>

theorem missing_weight_counterexample: "subscript (preferences (init 0 [room_a] [lesson_a] (Some [(''temperature_weight'', 1)])))
        ''capacity_weight'' \<noteq> Inr (5 / 10)
   \<and> add_capacity_fit_objective (init 0 [room_a] [lesson_a] (Some [(''temperature_weight'', 1)]))
       = Inl (KeyError ''capacity_weight'')"
  by (simp add: init_def subscript_def add_capacity_fit_objective_def bind_err_def
      room_a_def lesson_a_def get_or_def)

section \<open>optimize returns a result\<close>

lemma parse_plain:
  "suffix t = NoDesignator \<Longrightarrow> fromisoformat rz t = Inr (Naive (wall_clock t))"
  by (simp add: fromisoformat_def)

lemma lesson_intervals_naive:
  assumes "\<forall>l \<in> set ls. suffix (start_time l) = NoDesignator \<and> suffix (end_time l) = NoDesignator"
  shows "lesson_intervals rz ls
     = Inr (map (\<lambda>l. (Naive (wall_clock (start_time l)), Naive (wall_clock (end_time l)))) ls)"
proof -
  have "lesson_intervals rz ls
     = Inr (concat (map (\<lambda>l. [(Naive (wall_clock (start_time l)), Naive (wall_clock (end_time l)))]) ls))"
    unfolding lesson_intervals_def
    by (rule for_each_Inr) (use assms in \<open>simp add: parse_plain bind_err_def\<close>)
  then show ?thesis by simp
qed

lemma no_overlap_total:
  assumes "\<forall>l \<in> set (lessons self). suffix (start_time l) = NoDesignator \<and> suffix (end_time l) = NoDesignator"
  shows "\<exists>cs. add_no_overlap_constraints rz self = Inr cs"
proof -
  let ?ivs = "map (\<lambda>l. (Naive (wall_clock (start_time l)), Naive (wall_clock (end_time l)))) (lessons self)"
  have naive: "\<exists>s e. b = (Naive s, Naive e)" if "(i, b) \<in> set (enumerate 0 ?ivs)" for i b
    using that by (auto simp: in_set_enumerate_eq)
  have ov: "\<exists>c. overlap a b = Inr c"
    if "(i1, a) \<in> set (enumerate 0 ?ivs)" "(i2, b) \<in> set (enumerate 0 ?ivs)" for i1 i2 a b
    using naive [OF that(1)] naive [OF that(2)] by (auto simp: overlap_def bind_err_def)
  have "\<exists>cs. for_each (\<lambda>(j, room).
         for_each (\<lambda>(i1, a).
           for_each (\<lambda>(i2, b).
             if i1 < i2 then
               bind_err (overlap a b) (\<lambda>c. if c then Inr [SumLeOne (i1, j) (i2, j)] else Inr [])
             else Inr [])
             (enumerate 0 ?ivs))
           (enumerate 0 ?ivs))
         (enumerate 0 (rooms self)) = Inr cs"
  proof (rule for_each_total, clarify)
    fix j room
    show "\<exists>zs. for_each (\<lambda>(i1, a).
           for_each (\<lambda>(i2, b).
             if i1 < i2 then
               bind_err (overlap a b) (\<lambda>c. if c then Inr [SumLeOne (i1, j) (i2, j)] else Inr [])
             else Inr [])
             (enumerate 0 ?ivs))
           (enumerate 0 ?ivs) = Inr zs"
    proof (rule for_each_total, clarify)
      fix i1 a1 a2 assume m1: "(i1, (a1, a2)) \<in> set (enumerate 0 ?ivs)"
      show "\<exists>zs. for_each (\<lambda>(i2, b).
             if i1 < i2 then
               bind_err (overlap (a1, a2) b) (\<lambda>c. if c then Inr [SumLeOne (i1, j) (i2, j)] else Inr [])
             else Inr [])
             (enumerate 0 ?ivs) = Inr zs"
      proof (rule for_each_total, clarify)
        fix i2 b1 b2 assume m2: "(i2, (b1, b2)) \<in> set (enumerate 0 ?ivs)"
        from ov [OF m1 m2] obtain c where "overlap (a1, a2) (b1, b2) = Inr c" by blast
        then show "\<exists>zs. (if i1 < i2 then
               bind_err (overlap (a1, a2) (b1, b2)) (\<lambda>c. if c then Inr [SumLeOne (i1, j) (i2, j)] else Inr [])
             else Inr []) = Inr zs"
          by (simp add: bind_err_def)
      qed
    qed
  qed
  then show ?thesis
    by (simp add: add_no_overlap_constraints_def lesson_intervals_naive [OF assms] bind_err_def)
qed

lemma capacity_fit_total:
  assumes "map_of (preferences self) ''capacity_weight'' = Some cw"
  shows "\<exists>ts. add_capacity_fit_objective self = Inr ts"
  unfolding add_capacity_fit_objective_def Let_def
  by (rule for_each_total, clarify, rule for_each_total)
     (auto simp: subscript_Some [OF assms] bind_err_def)

lemma temperature_total:
  assumes "map_of (preferences self) ''temperature_weight'' = Some tw"
  shows "\<exists>ts. add_temperature_objective self = Inr ts"
  unfolding add_temperature_objective_def Let_def
  by (rule for_each_total, clarify, rule for_each_total)
     (auto simp: subscript_Some [OF assms] bind_err_def)

lemma equipment_total:
  assumes w: "map_of (preferences self) ''equipment_weight'' = Some ew"
    and horizon: "seven_days_from_now self = Naive h"
    and naive: "\<forall>l \<in> set (lessons self). suffix (start_time l) = NoDesignator"
  shows "\<exists>ts. add_equipment_objective rz self = Inr ts"
  unfolding add_equipment_objective_def Let_def
proof (rule for_each_total, clarify)
  fix i l assume "(i, l) \<in> set (enumerate 0 (lessons self))"
  then have "l \<in> set (lessons self)" by (auto simp: in_set_enumerate_eq)
  then have p: "fromisoformat rz (replace_Z (start_time l)) = Inr (Naive (wall_clock (start_time l)))"
    using naive by (simp add: parse_naive)
  show "\<exists>zs. bind_err (fromisoformat rz (replace_Z (start_time l))) (\<lambda>lesson_datetime.
         for_each (\<lambda>(j, room).
           bind_err (dt_greater lesson_datetime (seven_days_from_now self)) (\<lambda>beyond.
             bind_err (subscript (preferences self) ''equipment_weight'') (\<lambda>w.
               Inr [(py_int (real_of_int
                 (if beyond then
                      (if get_or (hasAC room) False then 20 else 0)
                      + (if get_or (hasHeater room) False then 20 else 0)
                    else
                      (if get_or (hasAC room) False then
                            (if get_or (temperature_predictions self (i, j)) 21 > 25 then 50
                             else if get_or (temperature_predictions self (i, j)) 21 > 23 then 30
                             else if get_or (temperature_predictions self (i, j)) 21 > 21 then 10
                             else 0)
                          else 0)
                         + (if get_or (hasHeater room) False then
                              (if get_or (temperature_predictions self (i, j)) 21 < 17 then 50
                               else if get_or (temperature_predictions self (i, j)) 21 < 19 then 30
                               else if get_or (temperature_predictions self (i, j)) 21 < 21 then 10
                               else 0)
                            else 0)) * w), (i, j))])))
           (enumerate 0 (rooms self))) = Inr zs"
    unfolding p bind_err_def sum.case
    by (rule for_each_total) (auto simp: horizon dt_greater_def subscript_Some [OF w])
qed

lemma build_model_total:
  assumes "map_of (preferences self) ''capacity_weight'' = Some cw"
    and "map_of (preferences self) ''equipment_weight'' = Some ew"
    and "map_of (preferences self) ''temperature_weight'' = Some tw"
    and "seven_days_from_now self = Naive h"
    and "\<forall>l \<in> set (lessons self). suffix (start_time l) = NoDesignator \<and> suffix (end_time l) = NoDesignator"
  shows "\<exists>m. build_model env self = Inr m"
proof -
  from no_overlap_total [OF assms(5)] obtain cs where
    1: "add_no_overlap_constraints (z_suffix_read env) self = Inr cs" by blast
  from capacity_fit_total [OF assms(1)] obtain t1 where 2: "add_capacity_fit_objective self = Inr t1"
    by blast
  from equipment_total [OF assms(2) assms(4)] assms(5) obtain t2 where
    3: "add_equipment_objective (z_suffix_read env) self = Inr t2" by blast
  from temperature_total [OF assms(3)] obtain t3 where 4: "add_temperature_objective self = Inr t3"
    by blast
  show ?thesis by (simp add: build_model_def 1 2 3 4 bind_err_def)
qed

lemma bind_for_each_total:
  assumes "\<And>x. x \<in> set xs \<Longrightarrow> \<exists>zs. body x = Inr zs"
  shows "\<exists>as. bind_err (for_each body xs) (\<lambda>a. Inr (k a)) = Inr (k as)"
  using for_each_total [of xs body, OF assms] by (auto simp: bind_err_def)

lemma extract_solution_total:
  assumes "map_of (preferences self) ''capacity_weight'' = Some cw"
    and "map_of (preferences self) ''equipment_weight'' = Some ew"
    and "map_of (preferences self) ''temperature_weight'' = Some tw"
  shows "\<exists>as. extract_solution self val st sstats =
           Inr \<lparr> status = (if st = OPTIMAL then ''optimal'' else ''feasible''),
                 assignments = as, message = None, stats = Some sstats \<rparr>"
  unfolding extract_solution_def
  by (rule bind_for_each_total)
     (auto simp: subscript_Some [OF assms(1)] subscript_Some [OF assms(2)]
        subscript_Some [OF assms(3)] bind_err_def Let_def split: option.splits)

lemma calculate_keeps:
  assumes "seven_days_from_now self = Naive h"
    and "\<forall>l \<in> set (lessons self). suffix (start_time l) = NoDesignator"
  shows "\<exists>preds. calculate_all_temperature_predictions env self
           = Inr (self\<lparr>temperature_predictions := preds\<rparr>)"
proof (cases "load_model env")
  case None
  have "self = self\<lparr>temperature_predictions := temperature_predictions self\<rparr>" by simp
  then show ?thesis
    using calculate_result [OF assms, of env] None by (metis option.simps(4))
next
  case (Some model)
  then show ?thesis using calculate_result [OF assms, of env] by auto
qed

lemma default_weights:
  "map_of default_preferences ''capacity_weight'' = Some (5 / 10)"
  "map_of default_preferences ''equipment_weight'' = Some (2 / 10)"
  "map_of default_preferences ''temperature_weight'' = Some (3 / 10)"
  by (simp_all add: default_preferences_def)

lemma init_weights:
  assumes "prefs = None \<or> prefs = Some []
      \<or> (\<exists>d. prefs = Some d
            \<and> {''capacity_weight'', ''equipment_weight'', ''temperature_weight''} \<subseteq> dom (map_of d))"
  shows "\<exists>cw ew tw. map_of (preferences (init now rs ls prefs)) ''capacity_weight'' = Some cw
     \<and> map_of (preferences (init now rs ls prefs)) ''equipment_weight'' = Some ew
     \<and> map_of (preferences (init now rs ls prefs)) ''temperature_weight'' = Some tw"
proof (cases "prefs = None \<or> prefs = Some []")
  case True
  then have dflt: "preferences (init now rs ls prefs) = default_preferences"
    by (auto simp: init_def)
  show ?thesis unfolding dflt using default_weights by blast
next
  case False
  with assms obtain d where d: "prefs = Some d" "d \<noteq> []"
      "{''capacity_weight'', ''equipment_weight'', ''temperature_weight''} \<subseteq> dom (map_of d)"
    by auto
  then have "preferences (init now rs ls prefs) = d"
    by (simp add: init_def)
  then show ?thesis using d(3) by auto
qed


lemma optimize_sample: "optimize sample_env (init 0 [room_a, room_b] [lesson_a, lesson_far] None) =
   Inr \<lparr>status = ''optimal'',
        assignments =
          [\<lparr>lesson = lesson_a, assigned_room = room_a,
              scores = \<lparr>capacity_fit = 667 / 1000, equipment = 3 / 4,
                   temperature = 4 / 5, overall = 723 / 1000\<rparr>\<rparr>],
        message = None, stats = Some sample_stats\<rparr>"
    by (simp add: optimize_def calculate_all_temperature_predictions_def extract_solution_def
        build_model_def sample_env_def init_def create_assignment_variables_def
        add_capacity_constraints_def capacity_lesson_def add_no_overlap_constraints_def
        lesson_intervals_def overlap_def add_capacity_fit_objective_def
        add_equipment_objective_def add_temperature_objective_def bind_err_def
        fromisoformat_def replace_Z_def dt_greater_def subscript_def default_preferences_def
        room_a_def room_b_def lesson_a_def lesson_far_def get_or_def py_int_def temp_score_def
        sample_val_def py_round3_def round_half_even_def Let_def)



end
